theory Spec2Isabelle
  imports Main
begin

section \<open>The Supabase authentication service (services/supabaseAuthService.ts)\<close>

text \<open>
  The module is a facade over two external collaborators reached through the imported
  \<open>supabase\<close> client: the identity provider (\<open>supabase.auth\<close>) and the \<open>users\<close> table.
  Every call to them is awaited; an awaited promise either resolves to a value or rejects,
  which at the \<open>await\<close> is a thrown exception.
\<close>

subsection \<open>JavaScript values\<close>

text \<open>The result of an awaited call or of an async function: rejected or resolved.\<close>

datatype 'a outcome = Threw string | Returned 'a

text \<open>
  An optional string of the source (\<open>string | null | undefined\<close>) is a \<open>string option\<close>;
  \<open>None\<close> stands for both \<open>null\<close> and \<open>undefined\<close>. Such a value is truthy when it is a
  non-empty string, and \<open>a || b\<close> is \<open>a\<close> when \<open>a\<close> is truthy and \<open>b\<close> otherwise.
\<close>

definition truthy :: "string option \<Rightarrow> bool" where
  "truthy v = (case v of None \<Rightarrow> False | Some s \<Rightarrow> s \<noteq> [])"

definition js_or :: "string option \<Rightarrow> string option \<Rightarrow> string option" where
  "js_or a b = (if truthy a then a else b)"

text \<open>\<open>a || 'literal'\<close>, whose value is always a string.\<close>

definition js_or_str :: "string option \<Rightarrow> string \<Rightarrow> string" where
  "js_or_str a d = (case a of None \<Rightarrow> d | Some s \<Rightarrow> if s = [] then d else s)"

text \<open>\<open>s.split('@')[0]\<close>: the part of \<open>s\<close> before its first \<open>@\<close>, all of \<open>s\<close> when it has none.\<close>

definition split_at_0 :: "string \<Rightarrow> string" where
  "split_at_0 s = takeWhile (\<lambda>c. c \<noteq> CHR ''@'') s"

text \<open>\<open>v ?? d\<close> on an optional boolean.\<close>

definition nullish_or :: "bool option \<Rightarrow> bool \<Rightarrow> bool" where
  "nullish_or v d = (case v of None \<Rightarrow> d | Some b \<Rightarrow> b)"

subsection \<open>Data\<close>

text \<open>
  \<open>TexaUser\<close>, lines 6 to 16. The declared type of \<open>role\<close> is \<open>'ADMIN' | 'MEMBER'\<close>, but
  the value is whatever string the table holds, so it is a string here; \<open>email\<close> is declared
  a string and \<open>getUserById\<close> copies the stored column, which may be null. The field \<open>id\<close>
  is written \<open>id'\<close>.
\<close>

record TexaUser =
  id' :: string
  email :: "string option"
  name :: "string option"
  photoURL :: "string option"
  role :: string
  isActive :: bool
  subscriptionEnd :: "string option"
  createdAt :: "string option"
  lastLogin :: "string option"

text \<open>The identity provider's user object (\<open>User\<close> of the client library), as far as the module reads it.\<close>

record UserMetadata =
  full_name :: "string option"
  avatar_url :: "string option"

record User =
  user_id :: string
  user_email :: "string option"
  user_metadata :: "UserMetadata option"
  user_created_at :: string

record Session =
  session_user :: User

text \<open>A row of the \<open>users\<close> table, with the column names of the wire.\<close>

record row =
  row_id :: string
  row_email :: "string option"
  row_name :: "string option"
  row_photo_url :: "string option"
  row_role :: "string option"
  row_is_active :: "bool option"
  row_subscription_end :: "string option"
  row_created_at :: "string option"
  row_last_login :: "string option"

text \<open>The \<open>{ data, error }\<close> a table read resolves to, and the \<open>{ data: { user }, error }\<close> of the provider.\<close>

record select_response =
  data :: "row option"
  error :: "string option"

record auth_response =
  auth_user :: "User option"
  auth_error :: "string option"

text \<open>
  The object written to the table: its properties in the order the source sets them.
  A property whose value is \<open>undefined\<close> is \<open>JUndefined\<close>.
\<close>

datatype jsval = JUndefined | JStr string | JBool bool

definition js_string :: "string option \<Rightarrow> jsval" where
  "js_string v = (case v of None \<Rightarrow> JUndefined | Some s \<Rightarrow> JStr s)"

type_synonym payload = "(string \<times> jsval) list"

datatype table_write =
    Upsert payload "string option"
  | Update payload string

text \<open>
  The collaborators, as the module sees them: what each awaited call answers, and the
  reading \<open>new Date().toISOString()\<close> gives during the operation.
  \<open>users_single w i\<close> answers \<open>from('users').select(..).eq('id', i).single()\<close>,
  \<open>users_write w x\<close> answers an upsert or update with the \<open>error\<close> of its response,
  \<open>auth_signUp w e p n\<close> answers \<open>auth.signUp\<close> for email \<open>e\<close>, password \<open>p\<close> and the
  metadata \<open>full_name: n\<close>.
\<close>

record world =
  users_single :: "string \<Rightarrow> select_response outcome"
  users_write :: "table_write \<Rightarrow> string option outcome"
  auth_signUp :: "string \<Rightarrow> string \<Rightarrow> string \<Rightarrow> auth_response outcome"
  auth_getUser :: "User option outcome"
  now :: string

subsection \<open>mapSupabaseUser (lines 22 to 69)\<close>

text \<open>\<open>user.user_metadata?.full_name\<close> and \<open>user.user_metadata?.avatar_url\<close>.\<close>

definition meta_full_name :: "User \<Rightarrow> string option" where
  "meta_full_name u = (case user_metadata u of None \<Rightarrow> None | Some m \<Rightarrow> full_name m)"

definition meta_avatar_url :: "User \<Rightarrow> string option" where
  "meta_avatar_url u = (case user_metadata u of None \<Rightarrow> None | Some m \<Rightarrow> avatar_url m)"

text \<open>\<open>user.email?.split('@')[0]\<close>.\<close>

definition email_local :: "User \<Rightarrow> string option" where
  "email_local u = (case user_email u of None \<Rightarrow> None | Some e \<Rightarrow> Some (split_at_0 e))"

text \<open>The body of the \<open>try\<close>, lines 26 to 57.\<close>

definition mapSupabaseUser_try :: "world \<Rightarrow> User \<Rightarrow> TexaUser outcome" where
  "mapSupabaseUser_try w u =
     (case users_single w (user_id u) of
        Threw e \<Rightarrow> Threw e
      | Returned r \<Rightarrow>
          (case (if error r \<noteq> None then None else data r) of
             None \<Rightarrow>
               Returned \<lparr> id' = user_id u,
                 email = js_or (user_email u) (Some ''''),
                 name = js_or (js_or (meta_full_name u) (email_local u)) (Some ''''),
                 photoURL = js_or (meta_avatar_url u) (Some ''''),
                 role = ''MEMBER'',
                 isActive = True,
                 subscriptionEnd = None,
                 createdAt = Some (user_created_at u),
                 lastLogin = Some (now w) \<rparr>
           | Some profile \<Rightarrow>
               Returned \<lparr> id' = row_id profile,
                 email = js_or (js_or (row_email profile) (user_email u)) (Some ''''),
                 name = js_or (js_or (row_name profile) (meta_full_name u)) (Some ''''),
                 photoURL = js_or (js_or (row_photo_url profile) (meta_avatar_url u)) (Some ''''),
                 role = js_or_str (row_role profile) ''MEMBER'',
                 isActive = nullish_or (row_is_active profile) True,
                 subscriptionEnd = row_subscription_end profile,
                 createdAt = row_created_at profile,
                 lastLogin = js_or (row_last_login profile) (Some (now w)) \<rparr>))"

text \<open>The whole function: the null check of line 23, the \<open>try\<close>, and the \<open>catch\<close> of lines 58 to 68.\<close>

definition mapSupabaseUser :: "world \<Rightarrow> User option \<Rightarrow> TexaUser option outcome" where
  "mapSupabaseUser w user =
     (case user of
        None \<Rightarrow> Returned None
      | Some u \<Rightarrow>
          (case mapSupabaseUser_try w u of
             Returned t \<Rightarrow> Returned (Some t)
           | Threw e \<Rightarrow>
               Returned (Some \<lparr> id' = user_id u,
                 email = js_or (user_email u) (Some ''''),
                 name = js_or (meta_full_name u) (Some ''''),
                 photoURL = js_or (meta_avatar_url u) (Some ''''),
                 role = ''MEMBER'',
                 isActive = True,
                 subscriptionEnd = None,
                 createdAt = None,
                 lastLogin = None \<rparr>)))"

subsection \<open>signUp (lines 72 to 108)\<close>

text \<open>
  The result is the pair \<open>{ user, error }\<close>, together with the writes sent to the table.
  A thrown value reaches the \<open>catch\<close> as its message; the response of the upsert is not read.
\<close>

definition signUp ::
  "world \<Rightarrow> string \<Rightarrow> string \<Rightarrow> string option \<Rightarrow>
     (TexaUser option \<times> string option) \<times> table_write list" where
  "signUp w email_in password name_in =
     (case auth_signUp w email_in password
             (js_or_str name_in (split_at_0 email_in)) of
        Threw e \<Rightarrow> ((None, Some (js_or_str (Some e) ''Sign up failed'')), [])
      | Returned r \<Rightarrow>
          (case auth_error r of
             Some m \<Rightarrow> ((None, Some m), [])
           | None \<Rightarrow>
               (case auth_user r of
                  None \<Rightarrow> ((None, Some ''Sign up failed''), [])
                | Some u \<Rightarrow>
                    (let q = Upsert
                           [(''id'', JStr (user_id u)),
                            (''email'', js_string (user_email u)),
                            (''name'', JStr (js_or_str name_in (split_at_0 email_in))),
                            (''role'', JStr ''MEMBER''),
                            (''is_active'', JBool True),
                            (''created_at'', JStr (now w)),
                            (''last_login'', JStr (now w))] None
                     in (case users_write w q of
                           Threw e \<Rightarrow>
                             ((None, Some (js_or_str (Some e) ''Sign up failed'')), [q])
                         | Returned _ \<Rightarrow>
                             (case mapSupabaseUser w (Some u) of
                                Threw e \<Rightarrow>
                                  ((None, Some (js_or_str (Some e) ''Sign up failed'')), [q])
                              | Returned texaUser \<Rightarrow> ((texaUser, None), [q])))))))"

subsection \<open>getCurrentUser (lines 183 to 191)\<close>

definition getCurrentUser :: "world \<Rightarrow> TexaUser option outcome" where
  "getCurrentUser w =
     (case auth_getUser w of
        Threw e \<Rightarrow> Returned None
      | Returned user \<Rightarrow>
          (case mapSupabaseUser w user of
             Threw e \<Rightarrow> Returned None
           | Returned t \<Rightarrow> Returned t))"

subsection \<open>onAuthChange (lines 194 to 227)\<close>

datatype AuthChangeEvent =
    INITIAL_SESSION | PASSWORD_RECOVERY | SIGNED_IN | SIGNED_OUT
  | TOKEN_REFRESHED | USER_UPDATED | MFA_CHALLENGE_VERIFIED

text \<open>
  What one subscription leaves behind: whether it is still registered with the provider,
  the arguments of every invocation of the callback in order, and the writes sent to the
  table.
\<close>

record listener =
  subscribed :: bool
  calls :: "TexaUser option list"
  writes :: "table_write list"

text \<open>
  The handler passed to \<open>onAuthStateChange\<close>, lines 202 to 221. A rejected upsert ends the
  handler before the callback is reached.
\<close>

definition handler ::
  "world \<Rightarrow> AuthChangeEvent \<Rightarrow> Session option \<Rightarrow> listener \<Rightarrow> unit outcome \<times> listener" where
  "handler w event session s =
     (if event = SIGNED_IN \<or> event = TOKEN_REFRESHED then
        (case mapSupabaseUser w (map_option session_user session) of
           Threw e \<Rightarrow> (Threw e, s)
         | Returned user \<Rightarrow>
             (case session of
                None \<Rightarrow> (Returned (), s\<lparr>calls := calls s @ [user]\<rparr>)
              | Some ss \<Rightarrow>
                  (let q = Upsert
                         [(''id'', JStr (user_id (session_user ss))),
                          (''email'', js_string (user_email (session_user ss))),
                          (''name'', js_string (js_or (meta_full_name (session_user ss))
                                                     (email_local (session_user ss)))),
                          (''photo_url'', js_string (meta_avatar_url (session_user ss))),
                          (''last_login'', JStr (now w))] (Some ''id'')
                   in (case users_write w q of
                         Threw e \<Rightarrow> (Threw e, s\<lparr>writes := writes s @ [q]\<rparr>)
                       | Returned _ \<Rightarrow>
                           (Returned (),
                            s\<lparr>calls := calls s @ [user], writes := writes s @ [q]\<rparr>)))))
      else if event = SIGNED_OUT then (Returned (), s\<lparr>calls := calls s @ [None]\<rparr>)
      else (Returned (), s))"

text \<open>
  Modelled from the spec: the identity provider's \<open>subscribeToSessionEvents(handler)\<close>, which
  "returns unsubscribe" (section 6), is the client library's and not part of the module. A
  pushed event is delivered to the handler while the subscription is registered and to no
  one once it is not; what the handler throws is the provider's to drop. Each pushed event
  comes with the state of the collaborators at its delivery, and a delivery runs to its end
  before the next one.
\<close>

definition push :: "world \<times> AuthChangeEvent \<times> Session option \<Rightarrow> listener \<Rightarrow> listener" where
  "push ev s =
     (case ev of (w, event, session) \<Rightarrow>
        if subscribed s then snd (handler w event session s) else s)"

fun pushes :: "(world \<times> AuthChangeEvent \<times> Session option) list \<Rightarrow> listener \<Rightarrow> listener" where
  "pushes [] s = s"
| "pushes (ev # evs) s = pushes evs (push ev s)"

text \<open>
  \<open>onAuthChange\<close> itself: the callback receives the current user (lines 196 to 198, here at
  once) and the handler is registered; the function returned at lines 224 to 226 ends the
  registration.
\<close>

definition onAuthChange :: "world \<Rightarrow> listener" where
  "onAuthChange w =
     (case getCurrentUser w of
        Threw e \<Rightarrow> \<lparr>subscribed = True, calls = [], writes = []\<rparr>
      | Returned user \<Rightarrow> \<lparr>subscribed = True, calls = [user], writes = []\<rparr>)"

definition unsubscribe :: "listener \<Rightarrow> listener" where
  "unsubscribe s = s\<lparr>subscribed := False\<rparr>"

subsection \<open>updateUserProfile (lines 230 to 253)\<close>

text \<open>\<open>Partial<TexaUser>\<close>: every field may be missing; \<open>None\<close> is \<open>undefined\<close>.\<close>

record TexaUser_partial =
  p_id :: "string option"
  p_email :: "string option"
  p_name :: "string option"
  p_photoURL :: "string option"
  p_role :: "string option"
  p_isActive :: "bool option"
  p_subscriptionEnd :: "string option"
  p_createdAt :: "string option"
  p_lastLogin :: "string option"

text \<open>The object \<open>updateData\<close> after lines 232 to 237.\<close>

definition updateData :: "TexaUser_partial \<Rightarrow> payload" where
  "updateData updates =
     (case p_name updates of None \<Rightarrow> [] | Some v \<Rightarrow> [(''name'', JStr v)]) @
     (case p_photoURL updates of None \<Rightarrow> [] | Some v \<Rightarrow> [(''photo_url'', JStr v)]) @
     (case p_role updates of None \<Rightarrow> [] | Some v \<Rightarrow> [(''role'', JStr v)]) @
     (case p_isActive updates of None \<Rightarrow> [] | Some v \<Rightarrow> [(''is_active'', JBool v)]) @
     (case p_subscriptionEnd updates of None \<Rightarrow> []
      | Some v \<Rightarrow> [(''subscription_end'', JStr v)])"

definition updateUserProfile ::
  "world \<Rightarrow> string \<Rightarrow> TexaUser_partial \<Rightarrow> bool outcome \<times> table_write list" where
  "updateUserProfile w userId updates =
     (let q = Update (updateData updates) userId
      in (case users_write w q of
            Threw e \<Rightarrow> (Returned False, [q])
          | Returned err \<Rightarrow> (if err \<noteq> None then (Returned False, [q]) else (Returned True, [q]))))"

subsection \<open>isAdmin (lines 256 to 269) and getUserById (lines 272 to 297)\<close>

text \<open>\<open>isAdmin\<close> selects the column \<open>role\<close> only; it is read from the row the table answers with.\<close>

definition isAdmin :: "world \<Rightarrow> string \<Rightarrow> bool outcome" where
  "isAdmin w userId =
     (case users_single w userId of
        Threw e \<Rightarrow> Returned False
      | Returned r \<Rightarrow>
          (case (if error r \<noteq> None then None else data r) of
             None \<Rightarrow> Returned False
           | Some d \<Rightarrow> Returned (row_role d = Some ''ADMIN'')))"

definition getUserById :: "world \<Rightarrow> string \<Rightarrow> TexaUser option outcome" where
  "getUserById w userId =
     (case users_single w userId of
        Threw e \<Rightarrow> Returned None
      | Returned r \<Rightarrow>
          (case (if error r \<noteq> None then None else data r) of
             None \<Rightarrow> Returned None
           | Some d \<Rightarrow>
               Returned (Some \<lparr> id' = row_id d,
                 email = row_email d,
                 name = row_name d,
                 photoURL = row_photo_url d,
                 role = js_or_str (row_role d) ''MEMBER'',
                 isActive = nullish_or (row_is_active d) True,
                 subscriptionEnd = row_subscription_end d,
                 createdAt = row_created_at d,
                 lastLogin = row_last_login d \<rparr>)))"

subsection \<open>Concrete inputs\<close>

text \<open>
  A signed-in user without provider metadata, her row in the table with every optional
  column null, and collaborators that answer every read with \<open>a\<close> at the clock reading \<open>t\<close>.
\<close>

definition ann :: User where
  "ann = \<lparr> user_id = ''u1'', user_email = Some ''ann@example.com'',
           user_metadata = Some \<lparr> full_name = None, avatar_url = None \<rparr>,
           user_created_at = ''2024-01-01T00:00:00.000Z'' \<rparr>"

definition ann_row :: row where
  "ann_row = \<lparr> row_id = ''u1'', row_email = Some ''ann@example.com'', row_name = None,
               row_photo_url = None, row_role = None, row_is_active = None,
               row_subscription_end = None,
               row_created_at = Some ''2024-01-01T00:00:00.000Z'', row_last_login = None \<rparr>"

definition world_of :: "select_response outcome \<Rightarrow> string \<Rightarrow> world" where
  "world_of a t =
     \<lparr> users_single = (\<lambda>i. a),
       users_write = (\<lambda>q. Returned None),
       auth_signUp = (\<lambda>e p n. Returned \<lparr> auth_user = None, auth_error = Some ''Signups not allowed'' \<rparr>),
       auth_getUser = Returned None,
       now = t \<rparr>"

text \<open>A provider that accepts every sign-up and answers with the user \<open>u\<close>; the table is empty.\<close>

definition signup_world :: "User \<Rightarrow> world" where
  "signup_world u =
     \<lparr> users_single = (\<lambda>i. Returned \<lparr> data = None, error = Some ''PGRST116'' \<rparr>),
       users_write = (\<lambda>q. Returned None),
       auth_signUp = (\<lambda>e p n. Returned \<lparr> auth_user = Some u, auth_error = None \<rparr>),
       auth_getUser = Returned (Some u),
       now = ''2024-06-01T12:00:00.000Z'' \<rparr>"

definition new_user :: "string \<Rightarrow> User" where
  "new_user e = \<lparr> user_id = ''u2'', user_email = Some e,
                  user_metadata = Some \<lparr> full_name = None, avatar_url = None \<rparr>,
                  user_created_at = ''2024-06-01T12:00:00.000Z'' \<rparr>"

definition idle :: listener where
  "idle = \<lparr> subscribed = True, calls = [], writes = [] \<rparr>"

definition only_name :: "string \<Rightarrow> TexaUser_partial" where
  "only_name n = \<lparr> p_id = None, p_email = None, p_name = Some n, p_photoURL = None,
       p_role = None, p_isActive = None, p_subscriptionEnd = None, p_createdAt = None,
       p_lastLogin = None \<rparr>"

section \<open>Properties\<close>

lemmas js_defs = js_or_def truthy_def js_or_str_def nullish_or_def split_at_0_def js_string_def

lemmas user_defs = meta_full_name_def meta_avatar_url_def email_local_def

subsection \<open>The reconciler\<close>

text \<open>
  With a stored profile the name is the stored name, else the metadata full name, else
  the empty string; without one it is the metadata full name, else the local part of the
  email, else the empty string.
\<close>

lemma mapSupabaseUser_try_stored:
  assumes "users_single w (user_id u) = Returned r" and "error r = None" and "data r = Some p"
  shows "mapSupabaseUser_try w u =
           Returned \<lparr> id' = row_id p,
             email = js_or (js_or (row_email p) (user_email u)) (Some ''''),
             name = js_or (js_or (row_name p) (meta_full_name u)) (Some ''''),
             photoURL = js_or (js_or (row_photo_url p) (meta_avatar_url u)) (Some ''''),
             role = js_or_str (row_role p) ''MEMBER'',
             isActive = nullish_or (row_is_active p) True,
             subscriptionEnd = row_subscription_end p,
             createdAt = row_created_at p,
             lastLogin = js_or (row_last_login p) (Some (now w)) \<rparr>"
  using assms by (simp add: mapSupabaseUser_try_def)

lemma mapSupabaseUser_try_missing:
  assumes "users_single w (user_id u) = Returned r" and "error r \<noteq> None \<or> data r = None"
  shows "mapSupabaseUser_try w u =
           Returned \<lparr> id' = user_id u,
             email = js_or (user_email u) (Some ''''),
             name = js_or (js_or (meta_full_name u) (email_local u)) (Some ''''),
             photoURL = js_or (meta_avatar_url u) (Some ''''),
             role = ''MEMBER'', isActive = True, subscriptionEnd = None,
             createdAt = Some (user_created_at u), lastLogin = Some (now w) \<rparr>"
  using assms by (auto simp: mapSupabaseUser_try_def)

lemma mapSupabaseUser_try_threw:
  "users_single w (user_id u) = Threw e \<Longrightarrow> mapSupabaseUser_try w u = Threw e"
  by (simp add: mapSupabaseUser_try_def)

text \<open>
  C1. The claim: for every non-null session the name is the stored profile name, else the
  provider metadata full name, else the local part of the session's email, else empty,
  also when a stored profile exists. The code at the failing input: Ann is signed in with
  the email \<open>ann@example.com\<close> and no metadata full name, her stored row has no name, and
  the name of the mapped user is the empty string, not \<open>ann\<close>; the branch for a missing
  profile (line 38) does take the local part.
\<close>

theorem mapSupabaseUser_stored_name_skips_email:
  "mapSupabaseUser (world_of (Returned \<lparr> data = Some ann_row, error = None \<rparr>)
       ''2024-06-01T12:00:00.000Z'') (Some ann)
     = Returned (Some \<lparr> id' = ''u1'', email = Some ''ann@example.com'', name = Some '''',
         photoURL = Some '''', role = ''MEMBER'', isActive = True, subscriptionEnd = None,
         createdAt = Some ''2024-01-01T00:00:00.000Z'',
         lastLogin = Some ''2024-06-01T12:00:00.000Z'' \<rparr>)
   \<and> email_local ann = Some ''ann''
   \<and> mapSupabaseUser (world_of (Returned \<lparr> data = None, error = None \<rparr>)
       ''2024-06-01T12:00:00.000Z'') (Some ann)
     = Returned (Some \<lparr> id' = ''u1'', email = Some ''ann@example.com'', name = Some ''ann'',
         photoURL = Some '''', role = ''MEMBER'', isActive = True, subscriptionEnd = None,
         createdAt = Some ''2024-01-01T00:00:00.000Z'',
         lastLogin = Some ''2024-06-01T12:00:00.000Z'' \<rparr>)"
  by (simp add: mapSupabaseUser_def mapSupabaseUser_try_def world_of_def ann_def ann_row_def
      js_defs user_defs)

text \<open>
  C2. \<open>mapSupabaseUser\<close> always returns and never throws; what it returns is null exactly
  when the user is null. When the lookup throws, the result is the user of the \<open>catch\<close>,
  and when the lookup answers with an error, it is the default user: both are made of the
  fields of the session's user, the constants \<open>MEMBER\<close> and \<open>true\<close> and, for the default user,
  the current time, and of nothing the table holds.
\<close>

theorem mapSupabaseUser_never_raises:
  "(\<exists>t. mapSupabaseUser w user = Returned t \<and> (t = None \<longleftrightarrow> user = None))
   \<and> (users_single w (user_id u) = Threw e \<longrightarrow>
         mapSupabaseUser w (Some u) =
           Returned (Some \<lparr> id' = user_id u,
             email = js_or (user_email u) (Some ''''),
             name = js_or (meta_full_name u) (Some ''''),
             photoURL = js_or (meta_avatar_url u) (Some ''''),
             role = ''MEMBER'', isActive = True, subscriptionEnd = None,
             createdAt = None, lastLogin = None \<rparr>))
   \<and> (users_single w (user_id u) = Returned r \<and> error r \<noteq> None \<longrightarrow>
         mapSupabaseUser w (Some u) =
           Returned (Some \<lparr> id' = user_id u,
             email = js_or (user_email u) (Some ''''),
             name = js_or (js_or (meta_full_name u) (email_local u)) (Some ''''),
             photoURL = js_or (meta_avatar_url u) (Some ''''),
             role = ''MEMBER'', isActive = True, subscriptionEnd = None,
             createdAt = Some (user_created_at u), lastLogin = Some (now w) \<rparr>))"
proof (intro conjI impI)
  show "\<exists>t. mapSupabaseUser w user = Returned t \<and> (t = None \<longleftrightarrow> user = None)"
    by (cases user; cases "mapSupabaseUser_try w (the user)")
       (simp_all add: mapSupabaseUser_def)
next
  assume "users_single w (user_id u) = Threw e"
  then show "mapSupabaseUser w (Some u) =
           Returned (Some \<lparr> id' = user_id u,
             email = js_or (user_email u) (Some ''''),
             name = js_or (meta_full_name u) (Some ''''),
             photoURL = js_or (meta_avatar_url u) (Some ''''),
             role = ''MEMBER'', isActive = True, subscriptionEnd = None,
             createdAt = None, lastLogin = None \<rparr>)"
    by (simp add: mapSupabaseUser_def mapSupabaseUser_try_threw)
next
  assume "users_single w (user_id u) = Returned r \<and> error r \<noteq> None"
  then show "mapSupabaseUser w (Some u) =
           Returned (Some \<lparr> id' = user_id u,
             email = js_or (user_email u) (Some ''''),
             name = js_or (js_or (meta_full_name u) (email_local u)) (Some ''''),
             photoURL = js_or (meta_avatar_url u) (Some ''''),
             role = ''MEMBER'', isActive = True, subscriptionEnd = None,
             createdAt = Some (user_created_at u), lastLogin = Some (now w) \<rparr>)"
    by (simp add: mapSupabaseUser_def mapSupabaseUser_try_missing)
qed

theorem mapSupabaseUser_never_raises_witness:
  "mapSupabaseUser (world_of (Threw ''fetch failed'') ''2024-06-01T12:00:00.000Z'') (Some ann)
     = Returned (Some \<lparr> id' = ''u1'', email = Some ''ann@example.com'', name = Some '''',
         photoURL = Some '''', role = ''MEMBER'', isActive = True, subscriptionEnd = None,
         createdAt = None, lastLogin = None \<rparr>)
   \<and> mapSupabaseUser (world_of (Returned \<lparr> data = None, error = Some ''PGRST116'' \<rparr>)
         ''2024-06-01T12:00:00.000Z'') (Some ann)
     = Returned (Some \<lparr> id' = ''u1'', email = Some ''ann@example.com'', name = Some ''ann'',
         photoURL = Some '''', role = ''MEMBER'', isActive = True, subscriptionEnd = None,
         createdAt = Some ''2024-01-01T00:00:00.000Z'',
         lastLogin = Some ''2024-06-01T12:00:00.000Z'' \<rparr>)
   \<and> mapSupabaseUser (world_of (Threw ''fetch failed'') ''2024-06-01T12:00:00.000Z'') None
     = Returned None"
  using mapSupabaseUser_never_raises
      [of "world_of (Threw ''fetch failed'') ''2024-06-01T12:00:00.000Z''" None ann
          "''fetch failed''" "\<lparr> data = None, error = Some ''PGRST116'' \<rparr>"]
    mapSupabaseUser_never_raises
      [of "world_of (Returned \<lparr> data = None, error = Some ''PGRST116'' \<rparr>)
             ''2024-06-01T12:00:00.000Z''" None ann
          "''fetch failed''" "\<lparr> data = None, error = Some ''PGRST116'' \<rparr>"]
  by (simp add: world_of_def ann_def js_defs user_defs)

text \<open>
  C5. When the session's user has no stored profile, because the lookup throws, answers
  with an error or answers with no record, \<open>mapSupabaseUser\<close> returns a user that is not
  null, with the role \<open>MEMBER\<close> and \<open>isActive\<close> true.
\<close>

theorem mapSupabaseUser_no_profile_defaults:
  assumes "users_single w (user_id u) = Threw e
           \<or> users_single w (user_id u) = Returned r \<and> (error r \<noteq> None \<or> data r = None)"
  shows "\<exists>t. mapSupabaseUser w (Some u) = Returned (Some t)
             \<and> role t = ''MEMBER'' \<and> isActive t = True"
  using assms
  by (auto simp: mapSupabaseUser_def mapSupabaseUser_try_threw mapSupabaseUser_try_missing)

theorem mapSupabaseUser_no_profile_defaults_witness:
  "users_single (world_of (Returned \<lparr> data = None, error = None \<rparr>) ''2024-06-01T12:00:00.000Z'')
       (user_id ann) = Returned \<lparr> data = None, error = None \<rparr>
   \<and> (\<exists>t. mapSupabaseUser (world_of (Returned \<lparr> data = None, error = None \<rparr>)
              ''2024-06-01T12:00:00.000Z'') (Some ann) = Returned (Some t)
           \<and> role t = ''MEMBER'' \<and> isActive t = True)"
  using mapSupabaseUser_no_profile_defaults
      [of "world_of (Returned \<lparr> data = None, error = None \<rparr>) ''2024-06-01T12:00:00.000Z''"
          ann "''none''" "\<lparr> data = None, error = None \<rparr>"]
  by (simp add: world_of_def)

subsection \<open>Reading a stored profile\<close>

text \<open>
  C6. For a stored profile whose \<open>role\<close> is null or absent, the mapped user has the role
  \<open>MEMBER\<close>, and when its \<open>is_active\<close> is null or absent, the mapped \<open>isActive\<close> is true, in the
  merge of \<open>mapSupabaseUser\<close> and in \<open>getUserById\<close> alike.
\<close>

theorem stored_profile_default_fill:
  assumes "users_single w (user_id u) = Returned r" and "error r = None" and "data r = Some p"
  shows "\<exists>t t'. mapSupabaseUser w (Some u) = Returned (Some t)
           \<and> getUserById w (user_id u) = Returned (Some t')
           \<and> (row_role p = None \<longrightarrow> role t = ''MEMBER'' \<and> role t' = ''MEMBER'')
           \<and> (row_is_active p = None \<longrightarrow> isActive t = True \<and> isActive t' = True)"
  using assms
  by (simp add: mapSupabaseUser_def mapSupabaseUser_try_stored [OF assms] getUserById_def
      js_or_str_def nullish_or_def)

theorem stored_profile_default_fill_witness:
  "row_role ann_row = None \<and> row_is_active ann_row = None
   \<and> (\<exists>t t'. mapSupabaseUser (world_of (Returned \<lparr> data = Some ann_row, error = None \<rparr>)
                ''2024-06-01T12:00:00.000Z'') (Some ann) = Returned (Some t)
           \<and> getUserById (world_of (Returned \<lparr> data = Some ann_row, error = None \<rparr>)
                ''2024-06-01T12:00:00.000Z'') ''u1'' = Returned (Some t')
           \<and> role t = ''MEMBER'' \<and> role t' = ''MEMBER''
           \<and> isActive t = True \<and> isActive t' = True)"
  using stored_profile_default_fill
      [of "world_of (Returned \<lparr> data = Some ann_row, error = None \<rparr>) ''2024-06-01T12:00:00.000Z''"
          ann "\<lparr> data = Some ann_row, error = None \<rparr>" ann_row]
  by (simp add: world_of_def ann_def ann_row_def)

text \<open>
  C9. \<open>getUserById\<close> is a function of what the table answers for the id and of nothing
  else: two calls that meet the same answer return the same user, field for field, whatever
  the clock reads and whatever the other collaborators do. It sends no write.
\<close>

theorem getUserById_deterministic:
  assumes "users_single w1 userId = users_single w2 userId"
  shows "getUserById w1 userId = getUserById w2 userId"
  using assms by (simp add: getUserById_def)

theorem getUserById_deterministic_witness:
  "getUserById (world_of (Returned \<lparr> data = Some ann_row, error = None \<rparr>)
       ''2024-06-01T12:00:00.000Z'') ''u1''
     = getUserById (world_of (Returned \<lparr> data = Some ann_row, error = None \<rparr>)
       ''2024-06-02T08:30:00.000Z'') ''u1''
   \<and> getUserById (world_of (Returned \<lparr> data = Some ann_row, error = None \<rparr>)
       ''2024-06-02T08:30:00.000Z'') ''u1''
     = Returned (Some \<lparr> id' = ''u1'', email = Some ''ann@example.com'', name = None,
         photoURL = None, role = ''MEMBER'', isActive = True, subscriptionEnd = None,
         createdAt = Some ''2024-01-01T00:00:00.000Z'', lastLogin = None \<rparr>)"
  using getUserById_deterministic
      [of "world_of (Returned \<lparr> data = Some ann_row, error = None \<rparr>) ''2024-06-01T12:00:00.000Z''"
          "''u1''"
          "world_of (Returned \<lparr> data = Some ann_row, error = None \<rparr>) ''2024-06-02T08:30:00.000Z''"]
  by (simp add: world_of_def getUserById_def ann_row_def js_defs)

text \<open>
  C8. \<open>isAdmin\<close> always returns and never throws; it returns true exactly when the lookup
  answers without an error with a record whose role is the string \<open>ADMIN\<close>, so it returns
  false when the lookup throws, answers with an error or answers with no record.
\<close>

theorem isAdmin_only_ADMIN:
  "\<exists>b. isAdmin w userId = Returned b
       \<and> (b \<longleftrightarrow> (\<exists>r d. users_single w userId = Returned r \<and> error r = None
                        \<and> data r = Some d \<and> row_role d = Some ''ADMIN''))"
  by (auto simp: isAdmin_def split: option.splits outcome.splits)

subsection \<open>Writing a profile\<close>

lemma updateData_map_of:
  "map_of (updateData updates) k =
     (if k = ''name'' then map_option JStr (p_name updates)
      else if k = ''photo_url'' then map_option JStr (p_photoURL updates)
      else if k = ''role'' then map_option JStr (p_role updates)
      else if k = ''is_active'' then map_option JBool (p_isActive updates)
      else if k = ''subscription_end'' then map_option JStr (p_subscriptionEnd updates)
      else None)"
  by (cases "p_name updates"; cases "p_photoURL updates"; cases "p_role updates";
      cases "p_isActive updates"; cases "p_subscriptionEnd updates")
     (simp_all add: updateData_def)

lemma updateData_keys:
  "map fst (updateData updates) =
     (if p_name updates = None then [] else [''name'']) @
     (if p_photoURL updates = None then [] else [''photo_url'']) @
     (if p_role updates = None then [] else [''role'']) @
     (if p_isActive updates = None then [] else [''is_active'']) @
     (if p_subscriptionEnd updates = None then [] else [''subscription_end''])"
  by (simp add: updateData_def split: option.splits)

lemma updateData_distinct: "distinct (map fst (updateData updates))"
  by (simp add: updateData_keys)

lemma updateUserProfile_result:
  "updateUserProfile w userId updates =
     (Returned (users_write w (Update (updateData updates) userId) = Returned None),
      [Update (updateData updates) userId])"
  by (simp add: updateUserProfile_def Let_def split: outcome.splits)

text \<open>
  C4. For every id and partial update, \<open>updateUserProfile\<close> sends one update, for that id,
  whose payload holds exactly the fields the function translates (\<open>name\<close>, \<open>photoURL\<close> as
  \<open>photo_url\<close>, \<open>role\<close>, \<open>isActive\<close> as \<open>is_active\<close>, \<open>subscriptionEnd\<close> as \<open>subscription_end\<close>)
  that are present in the input, each once and with the input's value; the input with only
  the name \<open>Ann\<close> gives the payload with only the name \<open>Ann\<close>. The function always returns and
  never throws, and it returns true only when the update resolves without an error: false
  when the update answers with an error and when it throws.
\<close>

theorem updateUserProfile_payload_exact:
  "(\<exists>b. updateUserProfile w userId updates = (Returned b, [Update (updateData updates) userId])
        \<and> (b \<longleftrightarrow> users_write w (Update (updateData updates) userId) = Returned None))
   \<and> (\<forall>k. map_of (updateData updates) k =
        (if k = ''name'' then map_option JStr (p_name updates)
         else if k = ''photo_url'' then map_option JStr (p_photoURL updates)
         else if k = ''role'' then map_option JStr (p_role updates)
         else if k = ''is_active'' then map_option JBool (p_isActive updates)
         else if k = ''subscription_end'' then map_option JStr (p_subscriptionEnd updates)
         else None))
   \<and> distinct (map fst (updateData updates))
   \<and> updateData (only_name ''Ann'') = [(''name'', JStr ''Ann'')]"
proof -
  have "updateData (only_name ''Ann'') = [(''name'', JStr ''Ann'')]"
    by (simp add: updateData_def only_name_def)
  then show ?thesis
    using updateData_map_of [of updates] updateData_distinct [of updates]
    by (simp add: updateUserProfile_result)
qed

text \<open>
  C10. \<open>updateUserProfile\<close> never writes \<open>email\<close>, \<open>id\<close>, \<open>created_at\<close> or \<open>last_login\<close>: whatever
  the partial input holds, also an \<open>email\<close>, the keys of the payload it sends are among
  \<open>name\<close>, \<open>photo_url\<close>, \<open>role\<close>, \<open>is_active\<close> and \<open>subscription_end\<close>.
\<close>

theorem updateUserProfile_never_writes_identity:
  "(\<exists>b. updateUserProfile w userId updates = (Returned b, [Update (updateData updates) userId]))
   \<and> set (map fst (updateData updates))
        \<subseteq> {''name'', ''photo_url'', ''role'', ''is_active'', ''subscription_end''}
   \<and> map_of (updateData updates) ''email'' = None
   \<and> map_of (updateData updates) ''id'' = None
   \<and> map_of (updateData updates) ''created_at'' = None
   \<and> map_of (updateData updates) ''last_login'' = None"
proof -
  have "set (map fst (updateData updates))
        \<subseteq> {''name'', ''photo_url'', ''role'', ''is_active'', ''subscription_end''}"
    unfolding updateData_keys by auto
  then show ?thesis
    by (simp add: updateUserProfile_result updateData_map_of)
qed

subsection \<open>Signing up\<close>

text \<open>
  C7, as stated: after a successful sign-up without a display name the upserted row has
  the given email. The row has the email of the user the provider answered with: a provider
  that stores \<open>A@Example.com\<close> as \<open>a@example.com\<close> makes \<open>signUp\<close> succeed and upsert
  \<open>a@example.com\<close>, which is not the given email.
\<close>

theorem signUp_email_counterexample:
  "signUp (signup_world (new_user ''a@example.com'')) ''A@Example.com'' ''pw'' None
     = ((Some \<lparr> id' = ''u2'', email = Some ''a@example.com'', name = Some ''a'',
           photoURL = Some '''', role = ''MEMBER'', isActive = True, subscriptionEnd = None,
           createdAt = Some ''2024-06-01T12:00:00.000Z'',
           lastLogin = Some ''2024-06-01T12:00:00.000Z'' \<rparr>, None),
        [Upsert [(''id'', JStr ''u2''),
                 (''email'', JStr ''a@example.com''),
                 (''name'', JStr ''A''),
                 (''role'', JStr ''MEMBER''),
                 (''is_active'', JBool True),
                 (''created_at'', JStr ''2024-06-01T12:00:00.000Z''),
                 (''last_login'', JStr ''2024-06-01T12:00:00.000Z'')] None])
   \<and> JStr ''a@example.com'' \<noteq> JStr ''A@Example.com''"
  by (simp add: signUp_def signup_world_def new_user_def mapSupabaseUser_def
      mapSupabaseUser_try_def js_defs user_defs)

text \<open>
  C7, amended. \<open>signUp\<close> called with no display name, when the provider answers without an
  error with a user, sends one upsert: the id and the email are those of the user the
  provider answered with (so the email is the given one whenever the provider returns it
  unchanged), the name is the local part of the given email, the role is \<open>MEMBER\<close>,
  \<open>is_active\<close> is true, and both timestamps are the current time.
\<close>

theorem signUp_upserts_profile:
  assumes "auth_signUp w email_in password (split_at_0 email_in) = Returned r"
    and "auth_error r = None" and "auth_user r = Some u"
  shows "snd (signUp w email_in password None) =
           [Upsert [(''id'', JStr (user_id u)),
                    (''email'', js_string (user_email u)),
                    (''name'', JStr (split_at_0 email_in)),
                    (''role'', JStr ''MEMBER''),
                    (''is_active'', JBool True),
                    (''created_at'', JStr (now w)),
                    (''last_login'', JStr (now w))] None]
         \<and> (user_email u = Some email_in \<longrightarrow> js_string (user_email u) = JStr email_in)"
  using assms
  by (auto simp: signUp_def js_or_str_def js_string_def Let_def
      split: option.splits outcome.splits)

theorem signUp_upserts_profile_witness:
  "auth_signUp (signup_world (new_user ''a@example.com'')) ''a@example.com'' ''pw''
       (split_at_0 ''a@example.com'')
     = Returned \<lparr> auth_user = Some (new_user ''a@example.com''), auth_error = None \<rparr>
   \<and> snd (signUp (signup_world (new_user ''a@example.com'')) ''a@example.com'' ''pw'' None) =
        [Upsert [(''id'', JStr ''u2''),
                 (''email'', JStr ''a@example.com''),
                 (''name'', JStr ''a''),
                 (''role'', JStr ''MEMBER''),
                 (''is_active'', JBool True),
                 (''created_at'', JStr ''2024-06-01T12:00:00.000Z''),
                 (''last_login'', JStr ''2024-06-01T12:00:00.000Z'')] None]"
  using signUp_upserts_profile
      [of "signup_world (new_user ''a@example.com'')" "''a@example.com''" "''pw''"
          "\<lparr> auth_user = Some (new_user ''a@example.com''), auth_error = None \<rparr>"
          "new_user ''a@example.com''"]
  by (simp add: signup_world_def new_user_def js_defs)

subsection \<open>The subscription\<close>

lemma pushes_unsubscribed: "\<not> subscribed s \<Longrightarrow> pushes evs s = s"
  by (induction evs) (simp_all add: push_def)

text \<open>
  C3. In the handler of \<open>onAuthChange\<close> a signed-out event invokes the callback once, with
  null, and does nothing else; an event that is not signed-in, token-refreshed or
  signed-out invokes nothing; and once the returned unsubscribe function has run, the
  events the provider pushes, however many, leave the record of callback invocations as it
  was.
\<close>

theorem onAuthChange_callback_events:
  "handler w SIGNED_OUT session s = (Returned (), s\<lparr>calls := calls s @ [None]\<rparr>)
   \<and> (subscribed s \<longrightarrow> push (w, SIGNED_OUT, session) s = s\<lparr>calls := calls s @ [None]\<rparr>)
   \<and> (event \<noteq> SIGNED_IN \<and> event \<noteq> TOKEN_REFRESHED \<and> event \<noteq> SIGNED_OUT \<longrightarrow>
        handler w event session s = (Returned (), s) \<and> push (w, event, session) s = s)
   \<and> pushes evs (unsubscribe s) = unsubscribe s
   \<and> calls (pushes evs (unsubscribe s)) = calls s"
proof -
  have "pushes evs (unsubscribe s) = unsubscribe s"
    by (rule pushes_unsubscribed) (simp add: unsubscribe_def)
  then show ?thesis
    by (simp add: handler_def push_def unsubscribe_def)
qed

theorem onAuthChange_callback_events_witness:
  "handler (world_of (Threw ''offline'') ''t'') SIGNED_OUT None idle
     = (Returned (), idle\<lparr>calls := [None]\<rparr>)
   \<and> push (world_of (Threw ''offline'') ''t'', SIGNED_OUT, None) idle = idle\<lparr>calls := [None]\<rparr>
   \<and> handler (world_of (Threw ''offline'') ''t'') USER_UPDATED None idle = (Returned (), idle)
   \<and> calls (pushes [(world_of (Threw ''offline'') ''t'', SIGNED_OUT, None),
                     (world_of (Threw ''offline'') ''t'', SIGNED_IN, None)]
               (unsubscribe idle)) = []"
  using onAuthChange_callback_events
      [of "world_of (Threw ''offline'') ''t''" None idle USER_UPDATED
          "[(world_of (Threw ''offline'') ''t'', SIGNED_OUT, None),
            (world_of (Threw ''offline'') ''t'', SIGNED_IN, None)]"]
  by (simp add: idle_def unsubscribe_def)

end
